theory Spec2Isabelle
  imports Complex_Main "HOL-Library.AList"
begin

section \<open>Data frames, the object store and exceptions\<close>

text \<open>
  The program under study is \<^verbatim>\<open>generate_scenario\<close> of \<^verbatim>\<open>app.py\<close>:
  \<^verbatim>\<open>
  def generate_scenario(df, co2_change, ch4_change, n2o_change):
      scenario_df = df.copy()
      scenario_df["CO2_Concentration_ppm"] += co2_change
      scenario_df["CH4_Concentration_ppb"] += ch4_change
      scenario_df["N2O_Concentration_ppb"] += n2o_change
      X = scenario_df[["CO2_Concentration_ppm", "CH4_Concentration_ppb", "N2O_Concentration_ppb"]]
      y = scenario_df["Temperature_Anomaly_C"]
      model = LinearRegression()
      model.fit(X, y)
      scenario_df["Predicted_Temperature_Anomaly_C"] = model.predict(X)
      return scenario_df
  \<close>
  A data frame is an ordered list of labelled columns; the labels of a frame are unique
  (as they are in every frame read from a CSV file). Cells are numbers of a type \<open>'a\<close>
  with an addition; the concrete examples use \<open>real\<close>, that is, exact arithmetic, and
  \<open>float64\<close>, the double-precision numbers with their rounded addition.

  Frames are mutable objects, so they live in a store and the program handles their
  addresses. The store is a list of frames, an address is an index into it, and a fresh
  object is appended at the end.
\<close>

datatype error = KeyError string | ValueError | LinAlgError

type_synonym 'a frame = "(string \<times> 'a list) list"

type_synonym 'a store = "'a frame list"

type_synonym ('a, 'r) prog = "'a store \<Rightarrow> 'a store \<times> (error + 'r)"

definition CO2_Concentration_ppm :: string where
  "CO2_Concentration_ppm = ''CO2_Concentration_ppm''"

definition CH4_Concentration_ppb :: string where
  "CH4_Concentration_ppb = ''CH4_Concentration_ppb''"

definition N2O_Concentration_ppb :: string where
  "N2O_Concentration_ppb = ''N2O_Concentration_ppb''"

definition Temperature_Anomaly_C :: string where
  "Temperature_Anomaly_C = ''Temperature_Anomaly_C''"

definition Predicted_Temperature_Anomaly_C :: string where
  "Predicted_Temperature_Anomaly_C = ''Predicted_Temperature_Anomaly_C''"

definition Year :: string where
  "Year = ''Year''"

subsection \<open>Operations on one frame\<close>

text \<open>\<^verbatim>\<open>f[c]\<close>: the column labelled \<open>c\<close>, or \<^verbatim>\<open>KeyError(c)\<close>.\<close>

definition getitem_frame :: "'a frame \<Rightarrow> string \<Rightarrow> error + 'a list" where
  "getitem_frame f c = (case map_of f c of None \<Rightarrow> Inl (KeyError c) | Some v \<Rightarrow> Inr v)"

text \<open>\<^verbatim>\<open>f[[c1, ..., cn]]\<close>: a new frame of the named columns, in the order asked for.\<close>

fun getitems_frame :: "'a frame \<Rightarrow> string list \<Rightarrow> error + 'a frame" where
  "getitems_frame f [] = Inr []"
| "getitems_frame f (c # cs) =
     (case getitem_frame f c of
        Inl e \<Rightarrow> Inl e
      | Inr v \<Rightarrow> (case getitems_frame f cs of Inl e \<Rightarrow> Inl e | Inr g \<Rightarrow> Inr ((c, v) # g)))"

text \<open>The number of rows (the length of the index), read off the first column.\<close>

definition nrows :: "'a frame \<Rightarrow> nat" where
  "nrows f = (case f of [] \<Rightarrow> 0 | (c, v) # g \<Rightarrow> length v)"

definition ncols :: "'a frame \<Rightarrow> nat" where
  "ncols f = length f"

text \<open>
  \<^verbatim>\<open>f[c] = values\<close> for an array of values: a column of that label is replaced where it
  stands, a new label is appended as the last column; an array whose length is not the
  number of rows is refused with \<^verbatim>\<open>ValueError\<close>. (A frame that has columns and no row
  is re-indexed by the library when a non-empty array is assigned; the model refuses the
  array there too. The scenario generator does not get that far on such a frame with the
  library's estimator, which refuses an empty sample.)
\<close>

definition setitem_frame :: "'a frame \<Rightarrow> string \<Rightarrow> 'a list \<Rightarrow> error + 'a frame" where
  "setitem_frame f c v =
     (if f \<noteq> [] \<and> length v \<noteq> nrows f then Inl ValueError else Inr (AList.update c v f))"

text \<open>
  \<^verbatim>\<open>f[c] += x\<close>: read the column, add \<open>x\<close> to each of its cells, store it back under the
  same label. The new column has the index of the old one, so the store-back cannot fail.
\<close>

definition iadd_frame :: "'a::plus frame \<Rightarrow> string \<Rightarrow> 'a \<Rightarrow> error + 'a frame" where
  "iadd_frame f c x =
     (case getitem_frame f c of
        Inl e \<Rightarrow> Inl e
      | Inr v \<Rightarrow> Inr (AList.update c (map (\<lambda>y. y + x) v) f))"

subsection \<open>Operations on the store\<close>

definition return :: "'r \<Rightarrow> ('a, 'r) prog" where
  "return r h = (h, Inr r)"

definition raise_or_return :: "error + 'r \<Rightarrow> ('a, 'r) prog" where
  "raise_or_return r h = (h, r)"

text \<open>Sequencing: an exception of the first statement skips the rest.\<close>

definition then_do :: "('a, 'r) prog \<Rightarrow> ('r \<Rightarrow> ('a, 'q) prog) \<Rightarrow> ('a, 'q) prog" where
  "then_do m k h = (case m h of (h', Inl e) \<Rightarrow> (h', Inl e) | (h', Inr r) \<Rightarrow> k r h')"

text \<open>\<^verbatim>\<open>df.copy()\<close>: a new frame object with the same columns.\<close>

definition copy :: "nat \<Rightarrow> ('a, nat) prog" where
  "copy df h = (h @ [h ! df], Inr (length h))"

definition getitem :: "nat \<Rightarrow> string \<Rightarrow> ('a, 'a list) prog" where
  "getitem df c h = (h, getitem_frame (h ! df) c)"

definition getitems :: "nat \<Rightarrow> string list \<Rightarrow> ('a, 'a frame) prog" where
  "getitems df cs h = (h, getitems_frame (h ! df) cs)"

definition setitem :: "nat \<Rightarrow> string \<Rightarrow> 'a list \<Rightarrow> ('a, unit) prog" where
  "setitem df c v h =
     (case setitem_frame (h ! df) c v of
        Inl e \<Rightarrow> (h, Inl e)
      | Inr g \<Rightarrow> (h[df := g], Inr ()))"

definition iadd :: "nat \<Rightarrow> string \<Rightarrow> 'a::plus \<Rightarrow> ('a, unit) prog" where
  "iadd df c x h =
     (case iadd_frame (h ! df) c x of
        Inl e \<Rightarrow> (h, Inl e)
      | Inr g \<Rightarrow> (h[df := g], Inr ()))"

subsection \<open>The regression library\<close>

text \<open>
  The estimator class comes from a library. \<^verbatim>\<open>generate_scenario\<close> uses two of its methods:
  \<^verbatim>\<open>fit(X, y)\<close>, which yields the fitted model or raises, and \<^verbatim>\<open>predict(X)\<close> of a fitted
  model, which yields one value per row or raises. The program is modelled for any such
  pair of functions; \<open>'m\<close> is the type of fitted models.
\<close>

record ('a, 'm) estimator =
  fit :: "'a frame \<Rightarrow> 'a list \<Rightarrow> error + 'm"
  predict :: "'m \<Rightarrow> 'a frame \<Rightarrow> error + 'a list"

section \<open>The scenario generator\<close>

definition generate_scenario ::
  "('a::plus, 'm) estimator \<Rightarrow> nat \<Rightarrow> 'a \<Rightarrow> 'a \<Rightarrow> 'a \<Rightarrow> ('a, nat) prog" where
  "generate_scenario LinearRegression df co2_change ch4_change n2o_change =
     then_do (copy df) (\<lambda>scenario_df.
     then_do (iadd scenario_df CO2_Concentration_ppm co2_change) (\<lambda>_.
     then_do (iadd scenario_df CH4_Concentration_ppb ch4_change) (\<lambda>_.
     then_do (iadd scenario_df N2O_Concentration_ppb n2o_change) (\<lambda>_.
     then_do (getitems scenario_df
                [CO2_Concentration_ppm, CH4_Concentration_ppb, N2O_Concentration_ppb]) (\<lambda>X.
     then_do (getitem scenario_df Temperature_Anomaly_C) (\<lambda>y.
     then_do (raise_or_return (fit LinearRegression X y)) (\<lambda>model.
     then_do (raise_or_return (predict LinearRegression model X)) (\<lambda>predicted.
     then_do (setitem scenario_df Predicted_Temperature_Anomaly_C predicted) (\<lambda>_.
     return scenario_df)))))))))"

section \<open>The least-squares estimator\<close>

text \<open>
  Modelled from the spec: the library's ordinary least-squares regression (the class
  \<^verbatim>\<open>LinearRegression\<close> is imported from a library and is not part of the repository), in
  exact arithmetic. \<^verbatim>\<open>fit\<close> finds an intercept and one coefficient per column of \<open>X\<close>
  that minimise the sum of the squared residuals against \<open>y\<close>; \<^verbatim>\<open>predict\<close> evaluates
  that linear function on each row. \<^verbatim>\<open>fit\<close> refuses an empty sample, a table without
  columns and columns whose length is not that of \<open>y\<close>; \<^verbatim>\<open>predict\<close> refuses a table
  without rows and a table whose column labels are not those the model was fitted on.
  Cells are real numbers here, so there is no infinite or undefined cell to refuse.

  The minimiser is found by orthogonalising the design columns (the constant column of
  ones first, which centres the others) and projecting \<open>y\<close> on them. A column that is a
  linear combination of the earlier ones leaves no residual and is skipped, so a
  rank-deficient design still has a least-squares solution, as it has for the library,
  which solves the least-squares problem rather than inverting a matrix. All
  least-squares solutions have the same fitted values on the rows they were fitted on
  (the orthogonal projection of \<open>y\<close> on the span of the design columns), which is all
  that the scenario generator reads.

  The spec says two things about a rank-deficient design that exclude each other: that
  perfectly collinear columns are a numerical-singularity error, and, in its example of
  two rows (on which three regressors are always linearly dependent), that the fit
  interpolates the two observations. The model follows the example.
\<close>

definition dot :: "real list \<Rightarrow> real list \<Rightarrow> real" where
  "dot u v = sum_list (map2 (*) u v)"

definition smul :: "real \<Rightarrow> real list \<Rightarrow> real list" where
  "smul c v = map ((*) c) v"

definition vadd :: "real list \<Rightarrow> real list \<Rightarrow> real list" where
  "vadd u v = map2 (+) u v"

definition vsub :: "real list \<Rightarrow> real list \<Rightarrow> real list" where
  "vsub u v = map2 (-) u v"

text \<open>
  A basis vector \<open>q\<close> is kept with its coordinates \<open>w\<close> over the design columns.
  \<open>reduce\<close> removes from a vector its components along the basis.
\<close>

definition reduce ::
  "(real list \<times> real list) list \<Rightarrow> real list \<times> real list \<Rightarrow> real list \<times> real list" where
  "reduce B vw =
     fold (\<lambda>(q, wq) (v, w). let c = dot v q / dot q q
                            in (vsub v (smul c q), vsub w (smul c wq))) B vw"

fun orthogonalise ::
  "(real list \<times> real list) list \<Rightarrow> (real list \<times> real list) list
     \<Rightarrow> (real list \<times> real list) list" where
  "orthogonalise B [] = B"
| "orthogonalise B (vw # rest) =
     (let (v, w) = reduce B vw
      in orthogonalise (if list_all (\<lambda>x. x = 0) v then B else B @ [(v, w)]) rest)"

definition unit_vec :: "nat \<Rightarrow> nat \<Rightarrow> real list" where
  "unit_vec k j = map (\<lambda>i. if i = j then 1 else 0) [0..<k]"

text \<open>A least-squares solution \<open>b\<close> of \<open>A b = y\<close>, for the list \<open>A\<close> of the design columns.\<close>

definition lstsq :: "real list list \<Rightarrow> real list \<Rightarrow> real list" where
  "lstsq A y =
     (let k = length A;
          B = orthogonalise [] (zip A (map (unit_vec k) [0..<k]))
      in fold (\<lambda>(q, w) b. vadd b (smul (dot y q / dot q q) w)) B (replicate k 0))"

record linear_model =
  feature_names :: "string list"
  coef :: "real list"
  intercept :: real

definition rows :: "'a frame \<Rightarrow> 'a list list" where
  "rows X = map (\<lambda>i. map (\<lambda>(c, v). v ! i) X) [0..<nrows X]"

definition ols_fit :: "real frame \<Rightarrow> real list \<Rightarrow> error + linear_model" where
  "ols_fit X y =
     (if y \<noteq> [] \<and> X \<noteq> [] \<and> list_all (\<lambda>(c, v). length v = length y) X
      then let b = lstsq (replicate (length y) 1 # map snd X) y
           in Inr \<lparr>feature_names = map fst X, coef = tl b, intercept = hd b\<rparr>
      else Inl ValueError)"

definition ols_predict :: "linear_model \<Rightarrow> real frame \<Rightarrow> error + real list" where
  "ols_predict m X =
     (if map fst X = feature_names m \<and> length X = length (coef m) \<and> 0 < nrows X \<and>
         list_all (\<lambda>(c, v). length v = nrows X) X
      then Inr (map (\<lambda>r. intercept m + dot (coef m) r) (rows X))
      else Inl ValueError)"

definition LinearRegression :: "(real, linear_model) estimator" where
  "LinearRegression = \<lparr>fit = ols_fit, predict = ols_predict\<rparr>"

section \<open>Double-precision cells\<close>

text \<open>
  The columns of the program hold IEEE 754 double-precision numbers. A finite double is
  kept as the real number it stands for; the two infinities and the undefined value are
  separate constructors (the sign of zero is not kept). The sum of two finite doubles is
  the exact sum rounded to 53 significant bits, ties to the even significand, with
  gradual underflow; a rounded sum of magnitude \<open>2 ^ 1024\<close> or more is an infinity.
\<close>

datatype float64 = Finite real | Infinite bool | NaN

text \<open>The number of binary digits of a positive integer.\<close>

function bit_length :: "int \<Rightarrow> int" where
  "bit_length n = (if n \<le> 0 then 0 else 1 + bit_length (n div 2))"
  by pat_completeness auto
termination
  by (relation "measure nat") auto

text \<open>The exponent \<open>e\<close> with \<open>2 ^ e \<le> \<bar>x\<bar> < 2 ^ (e + 1)\<close>, for \<open>x\<close> other than zero.\<close>

definition binade :: "real \<Rightarrow> int" where
  "binade x =
     (if 1 \<le> \<bar>x\<bar> then bit_length \<lfloor>\<bar>x\<bar>\<rfloor> - 1
      else - bit_length (\<lceil>1 / \<bar>x\<bar>\<rceil> - 1))"

definition round_half_even :: "real \<Rightarrow> int" where
  "round_half_even x =
     (let n = \<lfloor>x\<rfloor>; d = x - of_int n
      in if d < 1 / 2 then n else if 1 / 2 < d then n + 1 else if even n then n else n + 1)"

definition round64 :: "real \<Rightarrow> real" where
  "round64 x =
     (if x = 0 then 0
      else let e = max (binade x - 52) (- 1074)
           in of_int (round_half_even (x / 2 powi e)) * 2 powi e)"

definition to_float64 :: "real \<Rightarrow> float64" where
  "to_float64 x =
     (let r = round64 x in if 2 ^ 1024 \<le> \<bar>r\<bar> then Infinite (r < 0) else Finite r)"

fun fadd :: "float64 \<Rightarrow> float64 \<Rightarrow> float64" where
  "fadd (Finite u) (Finite v) = to_float64 (u + v)"
| "fadd (Finite u) (Infinite t) = Infinite t"
| "fadd (Infinite s) (Finite v) = Infinite s"
| "fadd (Infinite s) (Infinite t) = (if s = t then Infinite s else NaN)"
| "fadd NaN y = NaN"
| "fadd x NaN = NaN"

instantiation float64 :: plus
begin

definition plus_float64 :: "float64 \<Rightarrow> float64 \<Rightarrow> float64" where
  "plus_float64 x y = fadd x y"

instance ..

end

fun is_finite :: "float64 \<Rightarrow> bool" where
  "is_finite (Finite u) = True"
| "is_finite x = False"

fun value_of :: "float64 \<Rightarrow> real" where
  "value_of (Finite u) = u"
| "value_of x = 0"

text \<open>
  Modelled from the spec: the library's least-squares regression on double-precision
  cells. \<^verbatim>\<open>fit\<close> and \<^verbatim>\<open>predict\<close> refuse a table with an infinite or undefined cell
  (\<^verbatim>\<open>ValueError\<close>); on finite cells the fit is the exact least-squares fit of the values
  (the rounding inside the library's solver is not modelled) and each prediction is
  rounded to a double.
\<close>

definition finite_frame :: "float64 frame \<Rightarrow> bool" where
  "finite_frame X = list_all (\<lambda>(c, v). list_all is_finite v) X"

definition values_of :: "float64 frame \<Rightarrow> real frame" where
  "values_of X = map (\<lambda>(c, v). (c, map value_of v)) X"

definition fit64 :: "float64 frame \<Rightarrow> float64 list \<Rightarrow> error + linear_model" where
  "fit64 X y =
     (if finite_frame X \<and> list_all is_finite y then ols_fit (values_of X) (map value_of y)
      else Inl ValueError)"

definition predict64 :: "linear_model \<Rightarrow> float64 frame \<Rightarrow> error + float64 list" where
  "predict64 m X =
     (if finite_frame X
      then (case ols_predict m (values_of X) of
              Inl e \<Rightarrow> Inl e
            | Inr p \<Rightarrow> Inr (map to_float64 p))
      else Inl ValueError)"

definition LinearRegression64 :: "(float64, linear_model) estimator" where
  "LinearRegression64 = \<lparr>fit = fit64, predict = predict64\<rparr>"

section \<open>Example tables\<close>

text \<open>The two-row baseline of the example scenario.\<close>

definition two_rows :: "real frame" where
  "two_rows =
     [(Year, [2020, 2021]),
      (CO2_Concentration_ppm, [400, 402]),
      (CH4_Concentration_ppb, [1800, 1805]),
      (N2O_Concentration_ppb, [330, 331]),
      (Temperature_Anomaly_C, [11 / 10, 23 / 20])]"

text \<open>A table whose three concentration columns are multiples of one another.\<close>

definition collinear_rows :: "real frame" where
  "collinear_rows =
     [(CO2_Concentration_ppm, [1, 2, 3]),
      (CH4_Concentration_ppb, [2, 4, 6]),
      (N2O_Concentration_ppb, [3, 6, 9]),
      (Temperature_Anomaly_C, [1, 3, 2])]"

text \<open>A table that already has a column of predictions.\<close>

definition predicted_rows :: "real frame" where
  "predicted_rows =
     [(CO2_Concentration_ppm, [1, 2, 3]),
      (Predicted_Temperature_Anomaly_C, [0, 0, 0]),
      (CH4_Concentration_ppb, [2, 4, 6]),
      (N2O_Concentration_ppb, [3, 6, 9]),
      (Temperature_Anomaly_C, [1, 3, 2])]"

text \<open>A table with the required columns and no row.\<close>

definition no_rows :: "real frame" where
  "no_rows =
     [(CO2_Concentration_ppm, []),
      (CH4_Concentration_ppb, []),
      (N2O_Concentration_ppb, []),
      (Temperature_Anomaly_C, [])]"

text \<open>A table without the methane column.\<close>

definition no_ch4 :: "real frame" where
  "no_ch4 =
     [(CO2_Concentration_ppm, [1, 2]),
      (N2O_Concentration_ppb, [3, 6]),
      (Temperature_Anomaly_C, [1, 3])]"

text \<open>A table of doubles with a cell so large that adding 1 to it is lost in rounding.\<close>

definition large_rows :: "float64 frame" where
  "large_rows =
     [(CO2_Concentration_ppm, [Finite 10000000000000000, Finite 0]),
      (CH4_Concentration_ppb, [Finite 0, Finite 0]),
      (N2O_Concentration_ppb, [Finite 0, Finite 0]),
      (Temperature_Anomaly_C, [Finite 1, Finite 2])]"

text \<open>A table of doubles with an undefined cell.\<close>

definition undefined_cell_rows :: "float64 frame" where
  "undefined_cell_rows =
     [(CO2_Concentration_ppm, [Finite 400, NaN]),
      (CH4_Concentration_ppb, [Finite 1800, Finite 1805]),
      (N2O_Concentration_ppb, [Finite 330, Finite 331]),
      (Temperature_Anomaly_C, [Finite 1, Finite 2])]"

section \<open>Basic facts\<close>

text \<open>The labels are pairwise different.\<close>

lemma column_labels_distinct:
  "CO2_Concentration_ppm \<noteq> CH4_Concentration_ppb"
  "CO2_Concentration_ppm \<noteq> N2O_Concentration_ppb"
  "CO2_Concentration_ppm \<noteq> Temperature_Anomaly_C"
  "CO2_Concentration_ppm \<noteq> Predicted_Temperature_Anomaly_C"
  "CH4_Concentration_ppb \<noteq> CO2_Concentration_ppm"
  "CH4_Concentration_ppb \<noteq> N2O_Concentration_ppb"
  "CH4_Concentration_ppb \<noteq> Temperature_Anomaly_C"
  "CH4_Concentration_ppb \<noteq> Predicted_Temperature_Anomaly_C"
  "N2O_Concentration_ppb \<noteq> CO2_Concentration_ppm"
  "N2O_Concentration_ppb \<noteq> CH4_Concentration_ppb"
  "N2O_Concentration_ppb \<noteq> Temperature_Anomaly_C"
  "N2O_Concentration_ppb \<noteq> Predicted_Temperature_Anomaly_C"
  "Temperature_Anomaly_C \<noteq> CO2_Concentration_ppm"
  "Temperature_Anomaly_C \<noteq> CH4_Concentration_ppb"
  "Temperature_Anomaly_C \<noteq> N2O_Concentration_ppb"
  "Temperature_Anomaly_C \<noteq> Predicted_Temperature_Anomaly_C"
  "Predicted_Temperature_Anomaly_C \<noteq> CO2_Concentration_ppm"
  "Predicted_Temperature_Anomaly_C \<noteq> CH4_Concentration_ppb"
  "Predicted_Temperature_Anomaly_C \<noteq> N2O_Concentration_ppb"
  "Predicted_Temperature_Anomaly_C \<noteq> Temperature_Anomaly_C"
  "Year \<noteq> CO2_Concentration_ppm"
  "Year \<noteq> CH4_Concentration_ppb"
  "Year \<noteq> N2O_Concentration_ppb"
  "Year \<noteq> Temperature_Anomaly_C"
  "Year \<noteq> Predicted_Temperature_Anomaly_C"
  "CO2_Concentration_ppm \<noteq> Year"
  "CH4_Concentration_ppb \<noteq> Year"
  "N2O_Concentration_ppb \<noteq> Year"
  "Temperature_Anomaly_C \<noteq> Year"
  "Predicted_Temperature_Anomaly_C \<noteq> Year"
  by (simp_all add: CO2_Concentration_ppm_def CH4_Concentration_ppb_def
      N2O_Concentration_ppb_def Temperature_Anomaly_C_def Predicted_Temperature_Anomaly_C_def
      Year_def)

lemma copy_new: "copy df h = (h @ [h ! df], Inr (length h))"
  by (simp add: copy_def)

lemma iadd_new:
  "iadd (length h) c x (h @ [f]) =
     (case map_of f c of
        None \<Rightarrow> (h @ [f], Inl (KeyError c))
      | Some v \<Rightarrow> (h @ [AList.update c (map (\<lambda>y. y + x) v) f], Inr ()))"
  by (simp add: iadd_def iadd_frame_def getitem_frame_def split: option.splits)

lemma getitem_new:
  "getitem (length h) c (h @ [f]) =
     (h @ [f], case map_of f c of None \<Rightarrow> Inl (KeyError c) | Some v \<Rightarrow> Inr v)"
  by (simp add: getitem_def getitem_frame_def)

lemma getitems_new: "getitems (length h) cs (h @ [f]) = (h @ [f], getitems_frame f cs)"
  by (simp add: getitems_def)

lemma setitem_new:
  "setitem (length h) c v (h @ [f]) =
     (if f \<noteq> [] \<and> length v \<noteq> nrows f then (h @ [f], Inl ValueError)
      else (h @ [AList.update c v f], Inr ()))"
  by (simp add: setitem_def setitem_frame_def)

lemma nrows_update:
  "map_of f c = Some v \<Longrightarrow> length v' = length v \<Longrightarrow> nrows (AList.update c v' f) = nrows f"
  by (cases f) (auto simp: nrows_def split: if_splits)

lemma nrows_update_new:
  "f \<noteq> [] \<Longrightarrow> map_of f c = None \<Longrightarrow> nrows (AList.update c v' f) = nrows f"
  by (cases f) (auto simp: nrows_def split: if_splits)

lemma generate_scenario_unfold:
  "generate_scenario lr df a b c h =
    (let f = h ! df in
     (case map_of f CO2_Concentration_ppm of
       None \<Rightarrow> (h @ [f], Inl (KeyError CO2_Concentration_ppm))
     | Some xc \<Rightarrow>
     (let f1 = AList.update CO2_Concentration_ppm (map (\<lambda>v. v + a) xc) f in
     (case map_of f CH4_Concentration_ppb of
       None \<Rightarrow> (h @ [f1], Inl (KeyError CH4_Concentration_ppb))
     | Some xm \<Rightarrow>
     (let f2 = AList.update CH4_Concentration_ppb (map (\<lambda>v. v + b) xm) f1 in
     (case map_of f N2O_Concentration_ppb of
       None \<Rightarrow> (h @ [f2], Inl (KeyError N2O_Concentration_ppb))
     | Some xn \<Rightarrow>
     (let f3 = AList.update N2O_Concentration_ppb (map (\<lambda>v. v + c) xn) f2;
         X = [(CO2_Concentration_ppm, map (\<lambda>v. v + a) xc),
              (CH4_Concentration_ppb, map (\<lambda>v. v + b) xm),
              (N2O_Concentration_ppb, map (\<lambda>v. v + c) xn)] in
     (case map_of f Temperature_Anomaly_C of
       None \<Rightarrow> (h @ [f3], Inl (KeyError Temperature_Anomaly_C))
     | Some y \<Rightarrow>
     (case fit lr X y of
       Inl e \<Rightarrow> (h @ [f3], Inl e)
     | Inr m \<Rightarrow>
     (case predict lr m X of
       Inl e \<Rightarrow> (h @ [f3], Inl e)
     | Inr p \<Rightarrow>
     if length p \<noteq> nrows f then (h @ [f3], Inl ValueError)
     else (h @ [AList.update Predicted_Temperature_Anomaly_C p f3],
           Inr (length h))))))))))))"
  unfolding generate_scenario_def Let_def
  by (simp add: then_do_def copy_new iadd_new getitem_new getitems_new setitem_new
      raise_or_return_def return_def getitem_frame_def update_conv' column_labels_distinct
      nrows_update
      split: option.splits sum.splits)

lemma generate_scenario_store: "\<exists>g. fst (generate_scenario lr df a b c h) = h @ [g]"
  by (simp add: generate_scenario_unfold Let_def split: option.splits sum.splits)

lemma generate_scenario_address:
  "snd (generate_scenario lr df a b c h) = Inr s \<Longrightarrow> s = length h"
  by (simp add: generate_scenario_unfold Let_def split: option.splits sum.splits if_splits)

lemma generate_scenario_same_frame:
  assumes "h' ! df' = h ! df"
  shows "last (fst (generate_scenario lr df' a b c h')) =
           last (fst (generate_scenario lr df a b c h))"
    and "map_sum id (\<lambda>s. ()) (snd (generate_scenario lr df' a b c h')) =
           map_sum id (\<lambda>s. ()) (snd (generate_scenario lr df a b c h))"
  using assms
  by (simp_all add: generate_scenario_unfold Let_def split: option.splits sum.splits)

lemma generate_scenario_returns:
  assumes "generate_scenario lr df a b c h = (h', Inr s)"
  shows "\<exists>xc xm xn y m p.
      map_of (h ! df) CO2_Concentration_ppm = Some xc \<and>
      map_of (h ! df) CH4_Concentration_ppb = Some xm \<and>
      map_of (h ! df) N2O_Concentration_ppb = Some xn \<and>
      map_of (h ! df) Temperature_Anomaly_C = Some y \<and>
      fit lr [(CO2_Concentration_ppm, map (\<lambda>v. v + a) xc),
              (CH4_Concentration_ppb, map (\<lambda>v. v + b) xm),
              (N2O_Concentration_ppb, map (\<lambda>v. v + c) xn)] y = Inr m \<and>
      predict lr m [(CO2_Concentration_ppm, map (\<lambda>v. v + a) xc),
              (CH4_Concentration_ppb, map (\<lambda>v. v + b) xm),
              (N2O_Concentration_ppb, map (\<lambda>v. v + c) xn)] = Inr p \<and>
      length p = nrows (h ! df) \<and> s = length h \<and>
      h' = h @ [AList.update Predicted_Temperature_Anomaly_C p
                 (AList.update N2O_Concentration_ppb (map (\<lambda>v. v + c) xn)
                   (AList.update CH4_Concentration_ppb (map (\<lambda>v. v + b) xm)
                     (AList.update CO2_Concentration_ppm (map (\<lambda>v. v + a) xc) (h ! df))))]"
  using assms
  by (simp add: generate_scenario_unfold Let_def split: option.splits sum.splits if_splits)

lemma update_present_keys:
  "map_of f k = Some v \<Longrightarrow> map fst (AList.update k v' f) = map fst f"
  by (simp add: update_keys map_of_eq_None_iff [symmetric] del: map_of_eq_None_iff)

lemma update_absent_keys:
  "map_of f k = None \<Longrightarrow> map fst (AList.update k v' f) = map fst f @ [k]"
  by (simp add: update_keys map_of_eq_None_iff)

lemma first_missing_column:
  "snd (generate_scenario lr df a b c h) =
     (if map_of (h ! df) CO2_Concentration_ppm = None
      then Inl (KeyError CO2_Concentration_ppm)
      else if map_of (h ! df) CH4_Concentration_ppb = None
      then Inl (KeyError CH4_Concentration_ppb)
      else if map_of (h ! df) N2O_Concentration_ppb = None
      then Inl (KeyError N2O_Concentration_ppb)
      else if map_of (h ! df) Temperature_Anomaly_C = None
      then Inl (KeyError Temperature_Anomaly_C)
      else snd (generate_scenario lr df a b c h))"
  by (simp add: generate_scenario_unfold Let_def split: option.splits)

lemma update_commute:
  "k \<noteq> k' \<Longrightarrow> k \<in> fst ` set al \<Longrightarrow>
     AList.update k v (AList.update k' v' al) = AList.update k' v' (AList.update k v al)"
  by (induction al) auto

lemma map_of_Some_key: "map_of al k = Some v \<Longrightarrow> k \<in> fst ` set al"
  by (metis map_of_eq_None_iff option.distinct(1))

lemma offsets_twice:
  assumes "CO2_Concentration_ppm \<in> fst ` set f"
    and "CH4_Concentration_ppb \<in> fst ` set f"
    and "N2O_Concentration_ppb \<in> fst ` set f"
  shows "AList.update N2O_Concentration_ppb n2
           (AList.update CH4_Concentration_ppb m2
             (AList.update CO2_Concentration_ppm c2
               (AList.update Predicted_Temperature_Anomaly_C p1
                 (AList.update N2O_Concentration_ppb n1
                   (AList.update CH4_Concentration_ppb m1
                     (AList.update CO2_Concentration_ppm c1 f)))))) =
         AList.update Predicted_Temperature_Anomaly_C p1
           (AList.update N2O_Concentration_ppb n2
             (AList.update CH4_Concentration_ppb m2
               (AList.update CO2_Concentration_ppm c2 f)))"
proof -
  note d = column_labels_distinct
  have co2: "\<And>k w al. CO2_Concentration_ppm \<noteq> k \<Longrightarrow> CO2_Concentration_ppm \<in> fst ` set al \<Longrightarrow>
      AList.update CO2_Concentration_ppm c2 (AList.update k w al) =
      AList.update k w (AList.update CO2_Concentration_ppm c2 al)"
    by (rule update_commute)
  have ch4: "\<And>k w al. CH4_Concentration_ppb \<noteq> k \<Longrightarrow> CH4_Concentration_ppb \<in> fst ` set al \<Longrightarrow>
      AList.update CH4_Concentration_ppb m2 (AList.update k w al) =
      AList.update k w (AList.update CH4_Concentration_ppb m2 al)"
    by (rule update_commute)
  have n2o: "\<And>k w al. N2O_Concentration_ppb \<noteq> k \<Longrightarrow> N2O_Concentration_ppb \<in> fst ` set al \<Longrightarrow>
      AList.update N2O_Concentration_ppb n2 (AList.update k w al) =
      AList.update k w (AList.update N2O_Concentration_ppb n2 al)"
    by (rule update_commute)
  let ?c1 = "AList.update CO2_Concentration_ppm c1 f"
  let ?m1 = "AList.update CH4_Concentration_ppb m1 ?c1"
  let ?n1 = "AList.update N2O_Concentration_ppb n1 ?m1"
  let ?c2 = "AList.update CO2_Concentration_ppm c2 f"
  let ?m2 = "AList.update CH4_Concentration_ppb m2 ?c2"
  have s1: "AList.update CO2_Concentration_ppm c2
               (AList.update Predicted_Temperature_Anomaly_C p1 ?n1) =
            AList.update Predicted_Temperature_Anomaly_C p1
              (AList.update N2O_Concentration_ppb n1
                (AList.update CH4_Concentration_ppb m1 ?c2))"
    using assms by (simp add: co2 d dom_update)
  have s2: "AList.update CH4_Concentration_ppb m2
               (AList.update Predicted_Temperature_Anomaly_C p1
                 (AList.update N2O_Concentration_ppb n1
                   (AList.update CH4_Concentration_ppb m1 ?c2))) =
            AList.update Predicted_Temperature_Anomaly_C p1
              (AList.update N2O_Concentration_ppb n1 ?m2)"
    using assms by (simp add: ch4 d dom_update)
  have s3: "AList.update N2O_Concentration_ppb n2
               (AList.update Predicted_Temperature_Anomaly_C p1
                 (AList.update N2O_Concentration_ppb n1 ?m2)) =
            AList.update Predicted_Temperature_Anomaly_C p1
              (AList.update N2O_Concentration_ppb n2 ?m2)"
    using assms by (simp add: n2o d dom_update)
  show ?thesis
    by (simp only: s1 s2 s3)
qed

lemma nrows_update_len:
  "f \<noteq> [] \<Longrightarrow> length v = nrows f \<Longrightarrow> nrows (AList.update k v f) = nrows f"
  by (cases f) (auto simp: nrows_def)

text \<open>Sums and roundings of the doubles that the examples use.\<close>

lemma binade_values:
  "binade 1 = 0" "binade 2 = 1"
  "binade 10000000000000001 = 53" "binade 10000000000000002 = 53"
  by (simp_all add: binade_def)

lemma float64_sums:
  "Finite 0 + Finite 0 = Finite 0"
  "Finite 0 + Finite 1 = Finite 1"
  "Finite 1 + Finite 1 = Finite 2"
  "Finite 0 + Finite 2 = Finite 2"
  "Finite 10000000000000000 + Finite 1 = Finite 10000000000000000"
  "Finite 10000000000000000 + Finite 2 = Finite 10000000000000002"
  by (simp_all add: plus_float64_def to_float64_def round64_def round_half_even_def
      binade_values Let_def)

lemma float64_roundings:
  "to_float64 1 = Finite 1" "to_float64 2 = Finite 2"
  by (simp_all add: to_float64_def round64_def round_half_even_def binade_values Let_def)

section \<open>The example tables, evaluated\<close>

lemma two_rows_scenario:
  "generate_scenario LinearRegression 0 5 0 0 [two_rows] =
     ([two_rows,
       [(Year, [2020, 2021]),
        (CO2_Concentration_ppm, [405, 407]),
        (CH4_Concentration_ppb, [1800, 1805]),
        (N2O_Concentration_ppb, [330, 331]),
        (Temperature_Anomaly_C, [11 / 10, 23 / 20]),
        (Predicted_Temperature_Anomaly_C, [11 / 10, 23 / 20])]], Inr 1)"
  by code_simp

lemma collinear_rows_scenario:
  "generate_scenario LinearRegression 0 0 0 0 [collinear_rows] =
     ([collinear_rows,
       [(CO2_Concentration_ppm, [1, 2, 3]),
        (CH4_Concentration_ppb, [2, 4, 6]),
        (N2O_Concentration_ppb, [3, 6, 9]),
        (Temperature_Anomaly_C, [1, 3, 2]),
        (Predicted_Temperature_Anomaly_C, [3 / 2, 2, 5 / 2])]], Inr 1)"
  by code_simp

lemma predicted_rows_scenario:
  "generate_scenario LinearRegression 0 1 0 0 [predicted_rows] =
     ([predicted_rows,
       [(CO2_Concentration_ppm, [2, 3, 4]),
        (Predicted_Temperature_Anomaly_C, [3 / 2, 2, 5 / 2]),
        (CH4_Concentration_ppb, [2, 4, 6]),
        (N2O_Concentration_ppb, [3, 6, 9]),
        (Temperature_Anomaly_C, [1, 3, 2])]], Inr 1)"
  by code_simp

lemma two_rows_combined_scenario:
  "generate_scenario LinearRegression 0 6 0 0 [two_rows] =
     ([two_rows,
       [(Year, [2020, 2021]),
        (CO2_Concentration_ppm, [406, 408]),
        (CH4_Concentration_ppb, [1800, 1805]),
        (N2O_Concentration_ppb, [330, 331]),
        (Temperature_Anomaly_C, [11 / 10, 23 / 20]),
        (Predicted_Temperature_Anomaly_C, [11 / 10, 23 / 20])]], Inr 1)"
  by code_simp

text \<open>
  The table of doubles: one call with an offset of 1, a second call with an offset of 1 on
  its result, and one call with the offset \<open>1 + 1\<close>. The two-point fits are exact.
\<close>

lemma two_point_fits:
  "(case ols_fit [(CO2_Concentration_ppm, [10000000000000000, 1]),
                  (CH4_Concentration_ppb, [0, 0]),
                  (N2O_Concentration_ppb, [0, 0])] [1, 2] of
      Inl e \<Rightarrow> Inl e
    | Inr m \<Rightarrow> ols_predict m [(CO2_Concentration_ppm, [10000000000000000, 1]),
                  (CH4_Concentration_ppb, [0, 0]),
                  (N2O_Concentration_ppb, [0, 0])]) = Inr [1, 2]"
  by code_simp

lemma two_point_fits_second:
  "(case ols_fit [(CO2_Concentration_ppm, [10000000000000000, 2]),
                  (CH4_Concentration_ppb, [0, 0]),
                  (N2O_Concentration_ppb, [0, 0])] [1, 2] of
      Inl e \<Rightarrow> Inl e
    | Inr m \<Rightarrow> ols_predict m [(CO2_Concentration_ppm, [10000000000000000, 2]),
                  (CH4_Concentration_ppb, [0, 0]),
                  (N2O_Concentration_ppb, [0, 0])]) = Inr [1, 2]"
  by code_simp

lemma two_point_fits_combined:
  "(case ols_fit [(CO2_Concentration_ppm, [10000000000000002, 2]),
                  (CH4_Concentration_ppb, [0, 0]),
                  (N2O_Concentration_ppb, [0, 0])] [1, 2] of
      Inl e \<Rightarrow> Inl e
    | Inr m \<Rightarrow> ols_predict m [(CO2_Concentration_ppm, [10000000000000002, 2]),
                  (CH4_Concentration_ppb, [0, 0]),
                  (N2O_Concentration_ppb, [0, 0])]) = Inr [1, 2]"
  by code_simp

lemma fit64_predict64:
  assumes "(case ols_fit [(k1, [u1, u2]), (k2, [0, 0]), (k3, [0, 0])] [1, 2] of
              Inl e \<Rightarrow> Inl e
            | Inr m \<Rightarrow> ols_predict m [(k1, [u1, u2]), (k2, [0, 0]), (k3, [0, 0])]) = Inr [1, 2]"
  shows "\<exists>m. fit LinearRegression64
               [(k1, [Finite u1, Finite u2]), (k2, [Finite 0, Finite 0]),
                (k3, [Finite 0, Finite 0])] [Finite 1, Finite 2] = Inr m \<and>
             predict LinearRegression64 m
               [(k1, [Finite u1, Finite u2]), (k2, [Finite 0, Finite 0]),
                (k3, [Finite 0, Finite 0])] = Inr [Finite 1, Finite 2]"
proof (cases "ols_fit [(k1, [u1, u2]), (k2, [0, 0]), (k3, [0, 0])] [1, 2]")
  case (Inl e)
  with assms show ?thesis by simp
next
  case (Inr m)
  with assms have "ols_predict m [(k1, [u1, u2]), (k2, [0, 0]), (k3, [0, 0])] = Inr [1, 2]"
    by simp
  with Inr show ?thesis
    by (simp add: LinearRegression64_def fit64_def predict64_def finite_frame_def
        values_of_def float64_roundings)
qed

lemma large_rows_first:
  "generate_scenario LinearRegression64 0 (Finite 1) (Finite 0) (Finite 0) [large_rows] =
     ([large_rows,
       [(CO2_Concentration_ppm, [Finite 10000000000000000, Finite 1]),
        (CH4_Concentration_ppb, [Finite 0, Finite 0]),
        (N2O_Concentration_ppb, [Finite 0, Finite 0]),
        (Temperature_Anomaly_C, [Finite 1, Finite 2]),
        (Predicted_Temperature_Anomaly_C, [Finite 1, Finite 2])]], Inr 1)"
proof -
  from fit64_predict64 [OF two_point_fits] obtain m where
    "fit LinearRegression64
       [(CO2_Concentration_ppm, [Finite 10000000000000000, Finite 1]),
        (CH4_Concentration_ppb, [Finite 0, Finite 0]),
        (N2O_Concentration_ppb, [Finite 0, Finite 0])] [Finite 1, Finite 2] = Inr m"
    "predict LinearRegression64 m
       [(CO2_Concentration_ppm, [Finite 10000000000000000, Finite 1]),
        (CH4_Concentration_ppb, [Finite 0, Finite 0]),
        (N2O_Concentration_ppb, [Finite 0, Finite 0])] = Inr [Finite 1, Finite 2]"
    by blast
  then show ?thesis
    by (simp add: generate_scenario_unfold Let_def large_rows_def column_labels_distinct
        float64_sums nrows_def)
qed

lemma large_rows_second:
  "generate_scenario LinearRegression64 1 (Finite 1) (Finite 0) (Finite 0)
     [large_rows,
       [(CO2_Concentration_ppm, [Finite 10000000000000000, Finite 1]),
        (CH4_Concentration_ppb, [Finite 0, Finite 0]),
        (N2O_Concentration_ppb, [Finite 0, Finite 0]),
        (Temperature_Anomaly_C, [Finite 1, Finite 2]),
        (Predicted_Temperature_Anomaly_C, [Finite 1, Finite 2])]] =
     ([large_rows,
       [(CO2_Concentration_ppm, [Finite 10000000000000000, Finite 1]),
        (CH4_Concentration_ppb, [Finite 0, Finite 0]),
        (N2O_Concentration_ppb, [Finite 0, Finite 0]),
        (Temperature_Anomaly_C, [Finite 1, Finite 2]),
        (Predicted_Temperature_Anomaly_C, [Finite 1, Finite 2])],
       [(CO2_Concentration_ppm, [Finite 10000000000000000, Finite 2]),
        (CH4_Concentration_ppb, [Finite 0, Finite 0]),
        (N2O_Concentration_ppb, [Finite 0, Finite 0]),
        (Temperature_Anomaly_C, [Finite 1, Finite 2]),
        (Predicted_Temperature_Anomaly_C, [Finite 1, Finite 2])]], Inr 2)"
proof -
  from fit64_predict64 [OF two_point_fits_second] obtain m where
    "fit LinearRegression64
       [(CO2_Concentration_ppm, [Finite 10000000000000000, Finite 2]),
        (CH4_Concentration_ppb, [Finite 0, Finite 0]),
        (N2O_Concentration_ppb, [Finite 0, Finite 0])] [Finite 1, Finite 2] = Inr m"
    "predict LinearRegression64 m
       [(CO2_Concentration_ppm, [Finite 10000000000000000, Finite 2]),
        (CH4_Concentration_ppb, [Finite 0, Finite 0]),
        (N2O_Concentration_ppb, [Finite 0, Finite 0])] = Inr [Finite 1, Finite 2]"
    by blast
  then show ?thesis
    by (simp add: generate_scenario_unfold Let_def column_labels_distinct
        float64_sums nrows_def)
qed

lemma large_rows_combined:
  "generate_scenario LinearRegression64 0 (Finite 1 + Finite 1) (Finite 0 + Finite 0)
     (Finite 0 + Finite 0) [large_rows] =
     ([large_rows,
       [(CO2_Concentration_ppm, [Finite 10000000000000002, Finite 2]),
        (CH4_Concentration_ppb, [Finite 0, Finite 0]),
        (N2O_Concentration_ppb, [Finite 0, Finite 0]),
        (Temperature_Anomaly_C, [Finite 1, Finite 2]),
        (Predicted_Temperature_Anomaly_C, [Finite 1, Finite 2])]], Inr 1)"
proof -
  from fit64_predict64 [OF two_point_fits_combined] obtain m where
    "fit LinearRegression64
       [(CO2_Concentration_ppm, [Finite 10000000000000002, Finite 2]),
        (CH4_Concentration_ppb, [Finite 0, Finite 0]),
        (N2O_Concentration_ppb, [Finite 0, Finite 0])] [Finite 1, Finite 2] = Inr m"
    "predict LinearRegression64 m
       [(CO2_Concentration_ppm, [Finite 10000000000000002, Finite 2]),
        (CH4_Concentration_ppb, [Finite 0, Finite 0]),
        (N2O_Concentration_ppb, [Finite 0, Finite 0])] = Inr [Finite 1, Finite 2]"
    by blast
  then show ?thesis
    by (simp add: generate_scenario_unfold Let_def large_rows_def column_labels_distinct
        float64_sums nrows_def)
qed

section \<open>Properties of the scenario generator\<close>

text \<open>
  C1. When the baseline has the three concentration columns and the anomaly column and
  the call returns a table, the estimator was fitted on the three columns with the
  offsets added (as regressors) and on the anomaly column as it stands in the baseline
  (as the dependent variable), and the column \<^verbatim>\<open>Predicted_Temperature_Anomaly_C\<close> of the
  returned table holds what that fitted model predicts for those same rows. The model is
  the value that this call's \<^verbatim>\<open>fit\<close> returned: nothing of an earlier call enters.
\<close>

theorem regression_on_offset_columns:
  assumes "map_of (h ! df) CO2_Concentration_ppm = Some xc"
    and "map_of (h ! df) CH4_Concentration_ppb = Some xm"
    and "map_of (h ! df) N2O_Concentration_ppb = Some xn"
    and "map_of (h ! df) Temperature_Anomaly_C = Some y"
    and "generate_scenario lr df a b c h = (h', Inr s)"
  shows "\<exists>m p.
      fit lr [(CO2_Concentration_ppm, map (\<lambda>v. v + a) xc),
              (CH4_Concentration_ppb, map (\<lambda>v. v + b) xm),
              (N2O_Concentration_ppb, map (\<lambda>v. v + c) xn)] y = Inr m \<and>
      predict lr m [(CO2_Concentration_ppm, map (\<lambda>v. v + a) xc),
              (CH4_Concentration_ppb, map (\<lambda>v. v + b) xm),
              (N2O_Concentration_ppb, map (\<lambda>v. v + c) xn)] = Inr p \<and>
      map_of (h' ! s) Predicted_Temperature_Anomaly_C = Some p"
  using generate_scenario_returns [OF assms(5)] assms(1-4)
  by (auto simp: update_conv')

theorem regression_on_offset_columns_witness:
  "map_of ([two_rows] ! 0) CO2_Concentration_ppm = Some [400, 402] \<and>
   map_of ([two_rows] ! 0) CH4_Concentration_ppb = Some [1800, 1805] \<and>
   map_of ([two_rows] ! 0) N2O_Concentration_ppb = Some [330, 331] \<and>
   map_of ([two_rows] ! 0) Temperature_Anomaly_C = Some [11 / 10, 23 / 20] \<and>
   (\<exists>m p.
      fit LinearRegression [(CO2_Concentration_ppm, map (\<lambda>v. v + 5) [400, 402]),
              (CH4_Concentration_ppb, map (\<lambda>v. v + 0) [1800, 1805]),
              (N2O_Concentration_ppb, map (\<lambda>v. v + 0) [330, 331])] [11 / 10, 23 / 20] = Inr m \<and>
      predict LinearRegression m [(CO2_Concentration_ppm, map (\<lambda>v. v + 5) [400, 402]),
              (CH4_Concentration_ppb, map (\<lambda>v. v + 0) [1800, 1805]),
              (N2O_Concentration_ppb, map (\<lambda>v. v + 0) [330, 331])] = Inr p \<and>
      map_of (fst (generate_scenario LinearRegression 0 5 0 0 [two_rows]) ! 1)
        Predicted_Temperature_Anomaly_C = Some p \<and> p = [11 / 10, 23 / 20])"
proof -
  have c1: "map_of ([two_rows] ! 0) CO2_Concentration_ppm = Some [400, 402]"
    and c2: "map_of ([two_rows] ! 0) CH4_Concentration_ppb = Some [1800, 1805]"
    and c3: "map_of ([two_rows] ! 0) N2O_Concentration_ppb = Some [330, 331]"
    and c4: "map_of ([two_rows] ! 0) Temperature_Anomaly_C = Some [11 / 10, 23 / 20]"
    by (simp_all add: two_rows_def column_labels_distinct)
  from regression_on_offset_columns [OF c1 c2 c3 c4 two_rows_scenario]
  show ?thesis
    using c1 c2 c3 c4 unfolding two_rows_scenario
    by (auto simp: column_labels_distinct)
qed

text \<open>
  C2. In the returned table each concentration column is the baseline's column with the
  corresponding offset added to every cell, and the anomaly column is the baseline's.
  The witness is the two-row example with a CO2 offset of 5: CO2 becomes 405 and 407,
  the other columns stay as they are.
\<close>

theorem offsets_added_elementwise:
  assumes "generate_scenario lr df a b c h = (h', Inr s)"
  shows "map_of (h' ! s) CO2_Concentration_ppm =
           map_option (map (\<lambda>v. v + a)) (map_of (h ! df) CO2_Concentration_ppm) \<and>
         map_of (h' ! s) CH4_Concentration_ppb =
           map_option (map (\<lambda>v. v + b)) (map_of (h ! df) CH4_Concentration_ppb) \<and>
         map_of (h' ! s) N2O_Concentration_ppb =
           map_option (map (\<lambda>v. v + c)) (map_of (h ! df) N2O_Concentration_ppb) \<and>
         map_of (h' ! s) Temperature_Anomaly_C = map_of (h ! df) Temperature_Anomaly_C \<and>
         map_of (h ! df) CO2_Concentration_ppm \<noteq> None \<and>
         map_of (h ! df) CH4_Concentration_ppb \<noteq> None \<and>
         map_of (h ! df) N2O_Concentration_ppb \<noteq> None \<and>
         map_of (h ! df) Temperature_Anomaly_C \<noteq> None"
proof -
  from generate_scenario_returns [OF assms] obtain xc xm xn y m p where
    cols: "map_of (h ! df) CO2_Concentration_ppm = Some xc"
      "map_of (h ! df) CH4_Concentration_ppb = Some xm"
      "map_of (h ! df) N2O_Concentration_ppb = Some xn"
      "map_of (h ! df) Temperature_Anomaly_C = Some y"
    and s: "s = length h"
    and h': "h' = h @ [AList.update Predicted_Temperature_Anomaly_C p
                 (AList.update N2O_Concentration_ppb (map (\<lambda>v. v + c) xn)
                   (AList.update CH4_Concentration_ppb (map (\<lambda>v. v + b) xm)
                     (AList.update CO2_Concentration_ppm (map (\<lambda>v. v + a) xc) (h ! df))))]"
    by blast
  show ?thesis
    by (simp add: s h' cols update_conv' column_labels_distinct)
qed

theorem offsets_added_elementwise_witness:
  "generate_scenario LinearRegression 0 5 0 0 [two_rows] =
     ([two_rows,
       [(Year, [2020, 2021]),
        (CO2_Concentration_ppm, [405, 407]),
        (CH4_Concentration_ppb, [1800, 1805]),
        (N2O_Concentration_ppb, [330, 331]),
        (Temperature_Anomaly_C, [11 / 10, 23 / 20]),
        (Predicted_Temperature_Anomaly_C, [11 / 10, 23 / 20])]], Inr 1) \<and>
   map_of (fst (generate_scenario LinearRegression 0 5 0 0 [two_rows]) ! 1)
       CO2_Concentration_ppm = Some [405, 407] \<and>
   map_of (fst (generate_scenario LinearRegression 0 5 0 0 [two_rows]) ! 1)
       CH4_Concentration_ppb = Some [1800, 1805] \<and>
   map_of (fst (generate_scenario LinearRegression 0 5 0 0 [two_rows]) ! 1)
       N2O_Concentration_ppb = Some [330, 331] \<and>
   map_of (fst (generate_scenario LinearRegression 0 5 0 0 [two_rows]) ! 1)
       Temperature_Anomaly_C = Some [11 / 10, 23 / 20]"
proof -
  note run = two_rows_scenario
  from offsets_added_elementwise [OF run]
  show ?thesis
    unfolding run
    by (simp add: two_rows_def column_labels_distinct)
qed

text \<open>
  C3. The call works on a copy: the baseline object, and every other frame that was in
  the store before the call, is unchanged after it, whether the call returns or raises.
  A later call on the same baseline with other offsets therefore produces the table, or
  the exception, that it would have produced had the earlier call not happened.
\<close>

theorem baseline_not_mutated:
  assumes "df < length h"
  shows "fst (generate_scenario lr df a b c h) ! df = h ! df \<and>
         take (length h) (fst (generate_scenario lr df a b c h)) = h \<and>
         last (fst (generate_scenario lr df a' b' c' (fst (generate_scenario lr df a b c h)))) =
           last (fst (generate_scenario lr df a' b' c' h)) \<and>
         map_sum id (\<lambda>s. ()) (snd (generate_scenario lr df a' b' c'
             (fst (generate_scenario lr df a b c h)))) =
           map_sum id (\<lambda>s. ()) (snd (generate_scenario lr df a' b' c' h))"
proof -
  obtain g where g: "fst (generate_scenario lr df a b c h) = h @ [g]"
    using generate_scenario_store by blast
  have same: "(h @ [g]) ! df = h ! df"
    using assms by (simp add: nth_append)
  have "take (length h) (h @ [g]) = h"
    by simp
  with same generate_scenario_same_frame [OF same, of lr a' b' c'] show ?thesis
    by (simp add: g)
qed

theorem baseline_not_mutated_witness:
  "(0::nat) < length [two_rows] \<and>
   fst (generate_scenario LinearRegression 0 5 0 0 [two_rows]) ! 0 = two_rows \<and>
   take (length [two_rows]) (fst (generate_scenario LinearRegression 0 5 0 0 [two_rows])) =
     [two_rows]"
proof -
  have "(0::nat) < length [two_rows]"
    by simp
  from baseline_not_mutated [OF this, of LinearRegression 5 0 0 0 0 0]
  show ?thesis
    by simp
qed

text \<open>
  C4, as amended. The scenario generator has no collinearity check and no exception
  handler. On a baseline with the required columns, whatever the offsets and whether the
  offset columns are collinear or not, its outcome is decided by the estimator: an
  exception raised by \<^verbatim>\<open>fit\<close> or \<^verbatim>\<open>predict\<close> is surfaced to the caller as it is and no
  table is returned; a predicted vector whose length is not the number of rows is
  refused by the column assignment with \<^verbatim>\<open>ValueError\<close>; otherwise the table is returned.
  In the witness the least-squares estimator returns fitted values on proportional
  columns, and its \<^verbatim>\<open>ValueError\<close> for an empty sample and for an undefined cell reaches
  the caller.
\<close>

theorem collinearity_is_not_checked:
  assumes "map_of (h ! df) CO2_Concentration_ppm = Some xc"
    and "map_of (h ! df) CH4_Concentration_ppb = Some xm"
    and "map_of (h ! df) N2O_Concentration_ppb = Some xn"
    and "map_of (h ! df) Temperature_Anomaly_C = Some y"
  shows "snd (generate_scenario lr df a b c h) =
           (case fit lr [(CO2_Concentration_ppm, map (\<lambda>v. v + a) xc),
                         (CH4_Concentration_ppb, map (\<lambda>v. v + b) xm),
                         (N2O_Concentration_ppb, map (\<lambda>v. v + c) xn)] y of
              Inl err \<Rightarrow> Inl err
            | Inr m \<Rightarrow>
               (case predict lr m [(CO2_Concentration_ppm, map (\<lambda>v. v + a) xc),
                                   (CH4_Concentration_ppb, map (\<lambda>v. v + b) xm),
                                   (N2O_Concentration_ppb, map (\<lambda>v. v + c) xn)] of
                  Inl err \<Rightarrow> Inl err
                | Inr p \<Rightarrow> if length p = nrows (h ! df) then Inr (length h)
                           else Inl ValueError))"
  by (simp add: generate_scenario_unfold assms Let_def split: sum.splits)

theorem collinearity_is_not_checked_witness:
  "map_of ([collinear_rows] ! 0) CO2_Concentration_ppm = Some [1, 2, 3] \<and>
   map_of ([collinear_rows] ! 0) CH4_Concentration_ppb = Some [2, 4, 6] \<and>
   map_of ([collinear_rows] ! 0) N2O_Concentration_ppb = Some [3, 6, 9] \<and>
   map_of ([collinear_rows] ! 0) Temperature_Anomaly_C = Some [1, 3, 2] \<and>
   (case fit LinearRegression
           [(CO2_Concentration_ppm, map (\<lambda>v. v + 0) [1, 2, 3]),
            (CH4_Concentration_ppb, map (\<lambda>v. v + 0) [2, 4, 6]),
            (N2O_Concentration_ppb, map (\<lambda>v. v + 0) [3, 6, 9])] [1, 3, 2] of
      Inl err \<Rightarrow> Inl err
    | Inr m \<Rightarrow>
       (case predict LinearRegression m
               [(CO2_Concentration_ppm, map (\<lambda>v. v + 0) [1, 2, 3]),
                (CH4_Concentration_ppb, map (\<lambda>v. v + 0) [2, 4, 6]),
                (N2O_Concentration_ppb, map (\<lambda>v. v + 0) [3, 6, 9])] of
          Inl err \<Rightarrow> Inl err
        | Inr p \<Rightarrow> if length p = nrows ([collinear_rows] ! 0) then Inr (length [collinear_rows])
                   else Inl ValueError)) = Inr 1 \<and>
   map_of ([no_rows] ! 0) CO2_Concentration_ppm = Some [] \<and>
   map_of ([no_rows] ! 0) CH4_Concentration_ppb = Some [] \<and>
   map_of ([no_rows] ! 0) N2O_Concentration_ppb = Some [] \<and>
   map_of ([no_rows] ! 0) Temperature_Anomaly_C = Some [] \<and>
   snd (generate_scenario LinearRegression 0 1 2 3 [no_rows]) = Inl ValueError \<and>
   map_of ([undefined_cell_rows] ! 0) CO2_Concentration_ppm = Some [Finite 400, NaN] \<and>
   map_of ([undefined_cell_rows] ! 0) CH4_Concentration_ppb =
     Some [Finite 1800, Finite 1805] \<and>
   map_of ([undefined_cell_rows] ! 0) N2O_Concentration_ppb = Some [Finite 330, Finite 331] \<and>
   map_of ([undefined_cell_rows] ! 0) Temperature_Anomaly_C = Some [Finite 1, Finite 2] \<and>
   snd (generate_scenario LinearRegression64 0 (Finite 5) (Finite 0) (Finite 0)
         [undefined_cell_rows]) = Inl ValueError"
proof -
  have c1: "map_of ([collinear_rows] ! 0) CO2_Concentration_ppm = Some [1, 2, 3]"
    and c2: "map_of ([collinear_rows] ! 0) CH4_Concentration_ppb = Some [2, 4, 6]"
    and c3: "map_of ([collinear_rows] ! 0) N2O_Concentration_ppb = Some [3, 6, 9]"
    and c4: "map_of ([collinear_rows] ! 0) Temperature_Anomaly_C = Some [1, 3, 2]"
    by (simp_all add: collinear_rows_def column_labels_distinct)
  have returns: "snd (generate_scenario LinearRegression 0 0 0 0 [collinear_rows]) = Inr 1"
    by (simp add: collinear_rows_scenario)
  note collinear = collinearity_is_not_checked [OF c1 c2 c3 c4, of LinearRegression 0 0 0,
      unfolded returns, symmetric]
  have e1: "map_of ([no_rows] ! 0) CO2_Concentration_ppm = Some []"
    and e2: "map_of ([no_rows] ! 0) CH4_Concentration_ppb = Some []"
    and e3: "map_of ([no_rows] ! 0) N2O_Concentration_ppb = Some []"
    and e4: "map_of ([no_rows] ! 0) Temperature_Anomaly_C = Some []"
    by (simp_all add: no_rows_def column_labels_distinct)
  have empty: "snd (generate_scenario LinearRegression 0 1 2 3 [no_rows]) = Inl ValueError"
    by (simp add: collinearity_is_not_checked [OF e1 e2 e3 e4] LinearRegression_def
        ols_fit_def)
  have u1: "map_of ([undefined_cell_rows] ! 0) CO2_Concentration_ppm = Some [Finite 400, NaN]"
    and u2: "map_of ([undefined_cell_rows] ! 0) CH4_Concentration_ppb =
      Some [Finite 1800, Finite 1805]"
    and u3: "map_of ([undefined_cell_rows] ! 0) N2O_Concentration_ppb =
      Some [Finite 330, Finite 331]"
    and u4: "map_of ([undefined_cell_rows] ! 0) Temperature_Anomaly_C =
      Some [Finite 1, Finite 2]"
    by (simp_all add: undefined_cell_rows_def column_labels_distinct)
  have undefined_cell: "snd (generate_scenario LinearRegression64 0 (Finite 5) (Finite 0)
      (Finite 0) [undefined_cell_rows]) = Inl ValueError"
    by (simp add: collinearity_is_not_checked [OF u1 u2 u3 u4] LinearRegression64_def
        fit64_def finite_frame_def plus_float64_def)
  from c1 c2 c3 c4 collinear e1 e2 e3 e4 empty u1 u2 u3 u4 undefined_cell show ?thesis
    by blast
qed

text \<open>
  On a table whose three concentration columns are multiples of one column the call
  returns, and the predicted column is the least-squares fit: its residual is orthogonal
  to the constant column and to the regressors.
\<close>

theorem singular_fit_counterexample:
  "getitem_frame ([collinear_rows] ! 0) CO2_Concentration_ppm = Inr [1, 2, 3] \<and>
   getitem_frame ([collinear_rows] ! 0) CH4_Concentration_ppb = Inr (smul 2 [1, 2, 3]) \<and>
   getitem_frame ([collinear_rows] ! 0) N2O_Concentration_ppb = Inr (smul 3 [1, 2, 3]) \<and>
   generate_scenario LinearRegression 0 0 0 0 [collinear_rows] =
     ([collinear_rows,
       [(CO2_Concentration_ppm, [1, 2, 3]),
        (CH4_Concentration_ppb, [2, 4, 6]),
        (N2O_Concentration_ppb, [3, 6, 9]),
        (Temperature_Anomaly_C, [1, 3, 2]),
        (Predicted_Temperature_Anomaly_C, [3 / 2, 2, 5 / 2])]], Inr 1) \<and>
   dot (vsub [1, 3, 2] [3 / 2, 2, 5 / 2]) [1, 1, 1] = 0 \<and>
   dot (vsub [1, 3, 2] [3 / 2, 2, 5 / 2]) [1, 2, 3] = 0"
  by (simp add: collinear_rows_scenario)
    (simp add: collinear_rows_def getitem_frame_def smul_def dot_def vsub_def
      column_labels_distinct)

text \<open>
  C5, as amended. When the baseline has no column \<^verbatim>\<open>Predicted_Temperature_Anomaly_C\<close>,
  the returned table has exactly one more column than the baseline, the new column
  coming last after the baseline's columns in their order; it has the baseline's number
  of rows, the new column has one value per row, and the rows keep their order (the
  \<^verbatim>\<open>Year\<close> column is the baseline's).
\<close>

theorem one_more_column_same_rows:
  assumes "map_of (h ! df) Predicted_Temperature_Anomaly_C = None"
    and "generate_scenario lr df a b c h = (h', Inr s)"
  shows "ncols (h' ! s) = Suc (ncols (h ! df)) \<and>
         map fst (h' ! s) = map fst (h ! df) @ [Predicted_Temperature_Anomaly_C] \<and>
         nrows (h' ! s) = nrows (h ! df) \<and>
         map_of (h' ! s) Year = map_of (h ! df) Year \<and>
         (\<exists>p. map_of (h' ! s) Predicted_Temperature_Anomaly_C = Some p \<and>
              length p = nrows (h ! df))"
proof -
  from generate_scenario_returns [OF assms(2)] obtain xc xm xn y m p where
    cols: "map_of (h ! df) CO2_Concentration_ppm = Some xc"
      "map_of (h ! df) CH4_Concentration_ppb = Some xm"
      "map_of (h ! df) N2O_Concentration_ppb = Some xn"
      "map_of (h ! df) Temperature_Anomaly_C = Some y"
    and len: "length p = nrows (h ! df)"
    and s: "s = length h"
    and h': "h' = h @ [AList.update Predicted_Temperature_Anomaly_C p
                 (AList.update N2O_Concentration_ppb (map (\<lambda>v. v + c) xn)
                   (AList.update CH4_Concentration_ppb (map (\<lambda>v. v + b) xm)
                     (AList.update CO2_Concentration_ppm (map (\<lambda>v. v + a) xc) (h ! df))))]"
    by blast
  define f1 where "f1 = AList.update CO2_Concentration_ppm (map (\<lambda>v. v + a) xc) (h ! df)"
  define f2 where "f2 = AList.update CH4_Concentration_ppb (map (\<lambda>v. v + b) xm) f1"
  define f3 where "f3 = AList.update N2O_Concentration_ppb (map (\<lambda>v. v + c) xn) f2"
  have out: "h' ! s = AList.update Predicted_Temperature_Anomaly_C p f3"
    by (simp add: s h' f1_def f2_def f3_def)
  have m1: "map_of f1 CH4_Concentration_ppb = Some xm"
    by (simp add: f1_def update_conv' cols column_labels_distinct)
  have m2: "map_of f2 N2O_Concentration_ppb = Some xn"
    by (simp add: f2_def f1_def update_conv' cols column_labels_distinct)
  have m3: "map_of f3 Predicted_Temperature_Anomaly_C = None"
    by (simp add: f3_def f2_def f1_def update_conv' assms(1) column_labels_distinct)
  have k1: "map fst f1 = map fst (h ! df)"
    unfolding f1_def by (rule update_present_keys [OF cols(1)])
  have k2: "map fst f2 = map fst f1"
    unfolding f2_def by (rule update_present_keys [OF m1])
  have k3: "map fst f3 = map fst f2"
    unfolding f3_def by (rule update_present_keys [OF m2])
  have keys: "map fst (h' ! s) = map fst (h ! df) @ [Predicted_Temperature_Anomaly_C]"
    by (simp add: out update_absent_keys [OF m3] k1 k2 k3)
  have n1: "nrows f1 = nrows (h ! df)"
    unfolding f1_def by (rule nrows_update [OF cols(1)]) simp
  have n2: "nrows f2 = nrows f1"
    unfolding f2_def by (rule nrows_update [OF m1]) simp
  have n3: "nrows f3 = nrows f2"
    unfolding f3_def by (rule nrows_update [OF m2]) simp
  have "f3 \<noteq> []"
    by (simp add: f3_def)
  then have rows: "nrows (h' ! s) = nrows (h ! df)"
    by (simp add: out nrows_update_new [OF _ m3] n1 n2 n3)
  have "length (h' ! s) = length (map fst (h' ! s))"
    by simp
  also have "\<dots> = Suc (length (h ! df))"
    by (simp only: keys) simp
  finally have count: "ncols (h' ! s) = Suc (ncols (h ! df))"
    by (simp add: ncols_def)
  have year: "map_of (h' ! s) Year = map_of (h ! df) Year"
    by (simp add: out f3_def f2_def f1_def update_conv' column_labels_distinct)
  have pred: "map_of (h' ! s) Predicted_Temperature_Anomaly_C = Some p"
    by (simp add: out update_conv')
  from count keys rows year pred len show ?thesis
    by blast
qed

theorem one_more_column_same_rows_witness:
  "map_of ([two_rows] ! 0) Predicted_Temperature_Anomaly_C = None \<and>
   ncols (fst (generate_scenario LinearRegression 0 5 0 0 [two_rows]) ! 1) = 6 \<and>
   ncols ([two_rows] ! 0) = 5 \<and>
   nrows (fst (generate_scenario LinearRegression 0 5 0 0 [two_rows]) ! 1) = 2 \<and>
   nrows ([two_rows] ! 0) = 2"
proof -
  have none: "map_of ([two_rows] ! 0) Predicted_Temperature_Anomaly_C = None"
    by (simp add: two_rows_def column_labels_distinct)
  have "ncols ([two_rows] ! 0) = 5" "nrows ([two_rows] ! 0) = 2"
    by (simp_all add: two_rows_def ncols_def nrows_def)
  with none one_more_column_same_rows [OF none two_rows_scenario] show ?thesis
    unfolding two_rows_scenario by simp
qed

text \<open>
  On a table that already has the predicted column the returned table has as many
  columns as the baseline, not one more.
\<close>

theorem one_more_column_counterexample:
  "map_of ([predicted_rows] ! 0) CO2_Concentration_ppm \<noteq> None \<and>
   map_of ([predicted_rows] ! 0) CH4_Concentration_ppb \<noteq> None \<and>
   map_of ([predicted_rows] ! 0) N2O_Concentration_ppb \<noteq> None \<and>
   map_of ([predicted_rows] ! 0) Temperature_Anomaly_C \<noteq> None \<and>
   nrows ([predicted_rows] ! 0) = 3 \<and>
   snd (generate_scenario LinearRegression 0 1 0 0 [predicted_rows]) = Inr 1 \<and>
   ncols (fst (generate_scenario LinearRegression 0 1 0 0 [predicted_rows]) ! 1) =
     ncols ([predicted_rows] ! 0) \<and>
   ncols (fst (generate_scenario LinearRegression 0 1 0 0 [predicted_rows]) ! 1) \<noteq>
     Suc (ncols ([predicted_rows] ! 0))"
  unfolding predicted_rows_scenario
  by (simp add: predicted_rows_def ncols_def nrows_def column_labels_distinct)



text \<open>
  C7, as amended. Chaining two calls, the second on the table returned by the first, has
  the outcome of one call on the baseline with the offsets added up (the same exception,
  or the same table, so the same concentration columns and the same predicted column),
  provided that on every cell of the three concentration columns adding the two offsets
  one after the other gives the value that adding their sum gives. That is so in exact
  arithmetic, and for doubles whenever these sums are not rounded.
\<close>

theorem chained_offsets_add_up:
  fixes h :: "('a::plus) store"
  assumes "map_of (h ! df) CO2_Concentration_ppm = Some xc"
    and "map_of (h ! df) CH4_Concentration_ppb = Some xm"
    and "map_of (h ! df) N2O_Concentration_ppb = Some xn"
    and "\<forall>x \<in> set xc. (x + a) + d = x + (a + d)"
    and "\<forall>x \<in> set xm. (x + b) + e = x + (b + e)"
    and "\<forall>x \<in> set xn. (x + c) + f = x + (c + f)"
    and "generate_scenario lr df a b c h = (h1, Inr s1)"
    and "generate_scenario lr s1 d e f h1 = (h2, r2)"
  shows "map_sum id (\<lambda>s. h2 ! s) r2 =
         map_sum id (\<lambda>s. fst (generate_scenario lr df (a + d) (b + e) (c + f) h) ! s)
           (snd (generate_scenario lr df (a + d) (b + e) (c + f) h))"
proof -
  note cols3 = assms(1-3)
  from generate_scenario_returns [OF assms(7)] cols3 obtain y m1 p1 where
    anomaly: "map_of (h ! df) Temperature_Anomaly_C = Some y"
    and len1: "length p1 = nrows (h ! df)"
    and s1: "s1 = length h"
    and h1: "h1 = h @ [AList.update Predicted_Temperature_Anomaly_C p1
                 (AList.update N2O_Concentration_ppb (map (\<lambda>v. v + c) xn)
                   (AList.update CH4_Concentration_ppb (map (\<lambda>v. v + b) xm)
                     (AList.update CO2_Concentration_ppm (map (\<lambda>v. v + a) xc) (h ! df))))]"
    by auto
  note cols = cols3 anomaly
  define g1 where "g1 = AList.update CO2_Concentration_ppm (map (\<lambda>v. v + a) xc) (h ! df)"
  define g2 where "g2 = AList.update CH4_Concentration_ppb (map (\<lambda>v. v + b) xm) g1"
  define g3 where "g3 = AList.update N2O_Concentration_ppb (map (\<lambda>v. v + c) xn) g2"
  define F1 where "F1 = AList.update Predicted_Temperature_Anomaly_C p1 g3"
  define X where "X = [(CO2_Concentration_ppm, map (\<lambda>v. v + (a + d)) xc),
                       (CH4_Concentration_ppb, map (\<lambda>v. v + (b + e)) xm),
                       (N2O_Concentration_ppb, map (\<lambda>v. v + (c + f)) xn)]"
  define F where "F = AList.update N2O_Concentration_ppb (map (\<lambda>v. v + (c + f)) xn)
                   (AList.update CH4_Concentration_ppb (map (\<lambda>v. v + (b + e)) xm)
                     (AList.update CO2_Concentration_ppm (map (\<lambda>v. v + (a + d)) xc) (h ! df)))"
  define G where "G = AList.update N2O_Concentration_ppb (map (\<lambda>v. v + (c + f)) xn)
                   (AList.update CH4_Concentration_ppb (map (\<lambda>v. v + (b + e)) xm)
                     (AList.update CO2_Concentration_ppm (map (\<lambda>v. v + (a + d)) xc) F1))"
  have store: "h1 = h @ [F1]" and at: "h1 ! s1 = F1"
    by (simp_all add: h1 s1 F1_def g3_def g2_def g1_def)
  have m1: "map_of g1 CH4_Concentration_ppb = Some xm"
    by (simp add: g1_def update_conv' cols column_labels_distinct)
  have m2: "map_of g2 N2O_Concentration_ppb = Some xn"
    by (simp add: g2_def g1_def update_conv' cols column_labels_distinct)
  have n1: "nrows g1 = nrows (h ! df)"
    unfolding g1_def by (rule nrows_update [OF cols(1)]) simp
  have n2: "nrows g2 = nrows g1"
    unfolding g2_def by (rule nrows_update [OF m1]) simp
  have n3: "nrows g3 = nrows g2"
    unfolding g3_def by (rule nrows_update [OF m2]) simp
  have "g3 \<noteq> []"
    by (simp add: g3_def)
  then have rows: "nrows F1 = nrows (h ! df)"
    unfolding F1_def by (simp add: nrows_update_len len1 n1 n2 n3)
  have cols1: "map_of F1 CO2_Concentration_ppm = Some (map (\<lambda>v. v + a) xc)"
    "map_of F1 CH4_Concentration_ppb = Some (map (\<lambda>v. v + b) xm)"
    "map_of F1 N2O_Concentration_ppb = Some (map (\<lambda>v. v + c) xn)"
    "map_of F1 Temperature_Anomaly_C = Some y"
    by (simp_all add: F1_def g3_def g2_def g1_def update_conv' cols column_labels_distinct)
  have assoc': "map ((\<lambda>v. v + d) \<circ> (\<lambda>v. v + a)) xc = map (\<lambda>v. v + (a + d)) xc"
    "map ((\<lambda>v. v + e) \<circ> (\<lambda>v. v + b)) xm = map (\<lambda>v. v + (b + e)) xm"
    "map ((\<lambda>v. v + f) \<circ> (\<lambda>v. v + c)) xn = map (\<lambda>v. v + (c + f)) xn"
    using assms(4-6) by simp_all
  have keys: "CO2_Concentration_ppm \<in> fst ` set (h ! df)"
    "CH4_Concentration_ppb \<in> fst ` set (h ! df)"
    "N2O_Concentration_ppb \<in> fst ` set (h ! df)"
    using cols by (simp_all add: map_of_Some_key)
  have GF: "G = AList.update Predicted_Temperature_Anomaly_C p1 F"
    unfolding G_def F_def F1_def g3_def g2_def g1_def
    by (rule offsets_twice [OF keys])
  have upd: "\<And>p. AList.update Predicted_Temperature_Anomaly_C p G =
      AList.update Predicted_Temperature_Anomaly_C p F"
    by (simp add: GF)
  have second: "generate_scenario lr s1 d e f h1 =
      (case fit lr X y of
         Inl err \<Rightarrow> (h1 @ [G], Inl err)
       | Inr m \<Rightarrow>
          (case predict lr m X of
             Inl err \<Rightarrow> (h1 @ [G], Inl err)
           | Inr p \<Rightarrow>
              if length p \<noteq> nrows (h ! df) then (h1 @ [G], Inl ValueError)
              else (h1 @ [AList.update Predicted_Temperature_Anomaly_C p F],
                    Inr (length h1))))"
    by (simp add: generate_scenario_unfold [of lr s1] at cols1 assoc' rows G_def [symmetric]
        X_def [symmetric] upd Let_def cong: sum.case_cong if_cong)
  have single: "generate_scenario lr df (a + d) (b + e) (c + f) h =
      (case fit lr X y of
         Inl err \<Rightarrow> (h @ [F], Inl err)
       | Inr m \<Rightarrow>
          (case predict lr m X of
             Inl err \<Rightarrow> (h @ [F], Inl err)
           | Inr p \<Rightarrow>
              if length p \<noteq> nrows (h ! df) then (h @ [F], Inl ValueError)
              else (h @ [AList.update Predicted_Temperature_Anomaly_C p F],
                    Inr (length h))))"
    by (simp add: generate_scenario_unfold [of lr df] cols F_def [symmetric]
        X_def [symmetric] Let_def cong: sum.case_cong if_cong)
  from assms(8) second have out: "(h2, r2) =
      (case fit lr X y of
         Inl err \<Rightarrow> (h1 @ [G], Inl err)
       | Inr m \<Rightarrow>
          (case predict lr m X of
             Inl err \<Rightarrow> (h1 @ [G], Inl err)
           | Inr p \<Rightarrow>
              if length p \<noteq> nrows (h ! df) then (h1 @ [G], Inl ValueError)
              else (h1 @ [AList.update Predicted_Temperature_Anomaly_C p F],
                    Inr (length h1))))"
    by simp
  show ?thesis
    using out unfolding single
    by (auto split: sum.splits if_splits)
qed

theorem chained_offsets_add_up_witness:
  "map_of ([two_rows] ! 0) CO2_Concentration_ppm = Some [400, 402] \<and>
   map_of ([two_rows] ! 0) CH4_Concentration_ppb = Some [1800, 1805] \<and>
   map_of ([two_rows] ! 0) N2O_Concentration_ppb = Some [330, 331] \<and>
   map (\<lambda>x. (x + 5) + 1) [400, 402 :: real] = map (\<lambda>x. x + (5 + 1)) [400, 402] \<and>
   map (\<lambda>x. (x + 0) + 0) [1800, 1805 :: real] = map (\<lambda>x. x + (0 + 0)) [1800, 1805] \<and>
   map (\<lambda>x. (x + 0) + 0) [330, 331 :: real] = map (\<lambda>x. x + (0 + 0)) [330, 331] \<and>
   generate_scenario LinearRegression 0 5 0 0 [two_rows] =
     (fst (generate_scenario LinearRegression 0 5 0 0 [two_rows]), Inr 1) \<and>
   map_sum id
     (\<lambda>s. fst (generate_scenario LinearRegression 1 1 0 0
               (fst (generate_scenario LinearRegression 0 5 0 0 [two_rows]))) ! s)
     (snd (generate_scenario LinearRegression 1 1 0 0
               (fst (generate_scenario LinearRegression 0 5 0 0 [two_rows])))) =
   Inr [(Year, [2020, 2021]),
        (CO2_Concentration_ppm, [406, 408]),
        (CH4_Concentration_ppb, [1800, 1805]),
        (N2O_Concentration_ppb, [330, 331]),
        (Temperature_Anomaly_C, [11 / 10, 23 / 20]),
        (Predicted_Temperature_Anomaly_C, [11 / 10, 23 / 20])]"
proof -
  have c1: "map_of ([two_rows] ! 0) CO2_Concentration_ppm = Some [400, 402]"
    and c2: "map_of ([two_rows] ! 0) CH4_Concentration_ppb = Some [1800, 1805]"
    and c3: "map_of ([two_rows] ! 0) N2O_Concentration_ppb = Some [330, 331]"
    by (simp_all add: two_rows_def column_labels_distinct)
  have e1: "\<forall>x \<in> set [400, 402 :: real]. (x + 5) + 1 = x + (5 + 1)"
    and e2: "\<forall>x \<in> set [1800, 1805 :: real]. (x + 0) + 0 = x + (0 + 0)"
    and e3: "\<forall>x \<in> set [330, 331 :: real]. (x + 0) + 0 = x + (0 + 0)"
    by simp_all
  have first: "generate_scenario LinearRegression 0 5 0 0 [two_rows] =
      (fst (generate_scenario LinearRegression 0 5 0 0 [two_rows]), Inr 1)"
    by (simp add: two_rows_scenario)
  from chained_offsets_add_up [OF c1 c2 c3 e1 e2 e3 first surjective_pairing]
  have "map_sum id
     (\<lambda>s. fst (generate_scenario LinearRegression 1 1 0 0
               (fst (generate_scenario LinearRegression 0 5 0 0 [two_rows]))) ! s)
     (snd (generate_scenario LinearRegression 1 1 0 0
               (fst (generate_scenario LinearRegression 0 5 0 0 [two_rows])))) =
   Inr [(Year, [2020, 2021]),
        (CO2_Concentration_ppm, [406, 408]),
        (CH4_Concentration_ppb, [1800, 1805]),
        (N2O_Concentration_ppb, [330, 331]),
        (Temperature_Anomaly_C, [11 / 10, 23 / 20]),
        (Predicted_Temperature_Anomaly_C, [11 / 10, 23 / 20])]"
    by (simp add: two_rows_combined_scenario)
  with c1 c2 c3 first show ?thesis
    by simp
qed

text \<open>
  For doubles the proviso can fail: \<open>10 ^ 16 + 1\<close> is rounded back to \<open>10 ^ 16\<close>, so two
  offsets of 1 leave the cell as it was, and one offset of \<open>1 + 1\<close> does not. The chained
  table and the table of the single call then differ in the CO2 column.
\<close>

theorem chained_offsets_counterexample:
  "snd (generate_scenario LinearRegression64 0 (Finite 1) (Finite 0) (Finite 0) [large_rows])
     = Inr 1 \<and>
   snd (generate_scenario LinearRegression64 1 (Finite 1) (Finite 0) (Finite 0)
         (fst (generate_scenario LinearRegression64 0 (Finite 1) (Finite 0) (Finite 0)
                [large_rows]))) = Inr 2 \<and>
   map_of (fst (generate_scenario LinearRegression64 1 (Finite 1) (Finite 0) (Finite 0)
         (fst (generate_scenario LinearRegression64 0 (Finite 1) (Finite 0) (Finite 0)
                [large_rows]))) ! 2) CO2_Concentration_ppm =
     Some [Finite 10000000000000000, Finite 2] \<and>
   snd (generate_scenario LinearRegression64 0 (Finite 1 + Finite 1) (Finite 0 + Finite 0)
         (Finite 0 + Finite 0) [large_rows]) = Inr 1 \<and>
   map_of (fst (generate_scenario LinearRegression64 0 (Finite 1 + Finite 1)
         (Finite 0 + Finite 0) (Finite 0 + Finite 0) [large_rows]) ! 1) CO2_Concentration_ppm =
     Some [Finite 10000000000000002, Finite 2]"
  by (simp only: large_rows_first fst_conv snd_conv large_rows_second large_rows_combined)
    (simp add: column_labels_distinct)

text \<open>
  C8. Two calls with the same baseline and the same offsets, one after the other, have
  the same outcome: both raise the same exception, or both return a table and the two
  tables are equal.
\<close>

theorem repeated_call_same_table:
  assumes "df < length h"
    and "generate_scenario lr df a b c h = (h1, r1)"
    and "generate_scenario lr df a b c h1 = (h2, r2)"
  shows "map_sum id (\<lambda>s. h2 ! s) r2 = map_sum id (\<lambda>s. h1 ! s) r1"
proof -
  obtain g1 where g1: "h1 = h @ [g1]"
    using generate_scenario_store [of lr df a b c h] assms(2) by auto
  obtain g2 where g2: "h2 = h1 @ [g2]"
    using generate_scenario_store [of lr df a b c h1] assms(3) by auto
  have same: "h1 ! df = h ! df"
    using assms(1) by (simp add: g1 nth_append)
  from generate_scenario_same_frame [OF same, of lr a b c]
  have "g2 = last h1" and results: "map_sum id (\<lambda>s. ()) r2 = map_sum id (\<lambda>s. ()) r1"
    unfolding assms(2,3) by (simp_all add: g2)
  then have frames: "g2 = g1"
    by (simp add: g1)
  show ?thesis
  proof (cases r1)
    case (Inl e)
    with results show ?thesis
      by (cases r2) simp_all
  next
    case (Inr s1)
    with results obtain s2 where r2: "r2 = Inr s2"
      by (cases r2) simp_all
    have "s1 = length h"
      using generate_scenario_address [of lr df a b c h s1] assms(2) Inr by simp
    moreover have "s2 = length h1"
      using generate_scenario_address [of lr df a b c h1 s2] assms(3) r2 by simp
    ultimately show ?thesis
      by (simp add: Inr r2 g1 g2 frames nth_append)
  qed
qed

theorem repeated_call_same_table_witness:
  "(0::nat) < length [two_rows] \<and>
   map_sum id
     (\<lambda>s. fst (generate_scenario LinearRegression 0 5 0 0
               (fst (generate_scenario LinearRegression 0 5 0 0 [two_rows]))) ! s)
     (snd (generate_scenario LinearRegression 0 5 0 0
               (fst (generate_scenario LinearRegression 0 5 0 0 [two_rows])))) =
   Inr [(Year, [2020, 2021]),
        (CO2_Concentration_ppm, [405, 407]),
        (CH4_Concentration_ppb, [1800, 1805]),
        (N2O_Concentration_ppb, [330, 331]),
        (Temperature_Anomaly_C, [11 / 10, 23 / 20]),
        (Predicted_Temperature_Anomaly_C, [11 / 10, 23 / 20])]"
proof -
  have len: "(0::nat) < length [two_rows]"
    by simp
  have first: "generate_scenario LinearRegression 0 5 0 0 [two_rows] =
      (fst (generate_scenario LinearRegression 0 5 0 0 [two_rows]), Inr 1)"
    by (simp add: two_rows_scenario)
  from repeated_call_same_table [OF len first surjective_pairing] len
  show ?thesis
    by (simp add: two_rows_scenario)
qed

text \<open>
  C9. When one of the three concentration columns or the anomaly column is missing, the
  call raises \<^verbatim>\<open>KeyError\<close> naming a missing required column and returns no table; when
  only one of them is missing, it is the one named.
\<close>

theorem missing_column_is_key_error:
  assumes "k \<in> {CO2_Concentration_ppm, CH4_Concentration_ppb, N2O_Concentration_ppb,
                  Temperature_Anomaly_C}"
    and "map_of (h ! df) k = None"
  shows "(\<exists>k'. k' \<in> {CO2_Concentration_ppm, CH4_Concentration_ppb, N2O_Concentration_ppb,
                      Temperature_Anomaly_C} \<and>
               map_of (h ! df) k' = None \<and>
               snd (generate_scenario lr df a b c h) = Inl (KeyError k')) \<and>
         ((\<forall>j \<in> {CO2_Concentration_ppm, CH4_Concentration_ppb, N2O_Concentration_ppb,
                   Temperature_Anomaly_C} - {k}. map_of (h ! df) j \<noteq> None) \<longrightarrow>
            snd (generate_scenario lr df a b c h) = Inl (KeyError k))"
proof
  let ?r = "snd (generate_scenario lr df a b c h)"
  from assms have some: "map_of (h ! df) CO2_Concentration_ppm = None \<or>
      map_of (h ! df) CH4_Concentration_ppb = None \<or>
      map_of (h ! df) N2O_Concentration_ppb = None \<or>
      map_of (h ! df) Temperature_Anomaly_C = None"
    by auto
  consider
    (co2) "map_of (h ! df) CO2_Concentration_ppm = None"
  | (ch4) "map_of (h ! df) CO2_Concentration_ppm \<noteq> None"
      "map_of (h ! df) CH4_Concentration_ppb = None"
  | (n2o) "map_of (h ! df) CO2_Concentration_ppm \<noteq> None"
      "map_of (h ! df) CH4_Concentration_ppb \<noteq> None"
      "map_of (h ! df) N2O_Concentration_ppb = None"
  | (anomaly) "map_of (h ! df) CO2_Concentration_ppm \<noteq> None"
      "map_of (h ! df) CH4_Concentration_ppb \<noteq> None"
      "map_of (h ! df) N2O_Concentration_ppb \<noteq> None"
      "map_of (h ! df) Temperature_Anomaly_C = None"
    using some by fastforce
  then show "\<exists>k'. k' \<in> {CO2_Concentration_ppm, CH4_Concentration_ppb, N2O_Concentration_ppb,
                      Temperature_Anomaly_C} \<and>
               map_of (h ! df) k' = None \<and> ?r = Inl (KeyError k')"
  proof cases
    case co2
    then have "?r = Inl (KeyError CO2_Concentration_ppm)"
      by (subst first_missing_column) auto
    with co2 show ?thesis by blast
  next
    case ch4
    then have "?r = Inl (KeyError CH4_Concentration_ppb)"
      by (subst first_missing_column) auto
    with ch4 show ?thesis by blast
  next
    case n2o
    then have "?r = Inl (KeyError N2O_Concentration_ppb)"
      by (subst first_missing_column) auto
    with n2o show ?thesis by blast
  next
    case anomaly
    then have "?r = Inl (KeyError Temperature_Anomaly_C)"
      by (subst first_missing_column) auto
    with anomaly show ?thesis by blast
  qed
next
  let ?r = "snd (generate_scenario lr df a b c h)"
  show "(\<forall>j \<in> {CO2_Concentration_ppm, CH4_Concentration_ppb, N2O_Concentration_ppb,
                   Temperature_Anomaly_C} - {k}. map_of (h ! df) j \<noteq> None) \<longrightarrow>
            ?r = Inl (KeyError k)"
  proof
    assume others: "\<forall>j \<in> {CO2_Concentration_ppm, CH4_Concentration_ppb,
        N2O_Concentration_ppb, Temperature_Anomaly_C} - {k}. map_of (h ! df) j \<noteq> None"
    from assms(1) consider "k = CO2_Concentration_ppm" | "k = CH4_Concentration_ppb"
      | "k = N2O_Concentration_ppb" | "k = Temperature_Anomaly_C"
      by auto
    then show "?r = Inl (KeyError k)"
    proof cases
      case 1
      with assms(2) show ?thesis
        by (subst first_missing_column) auto
    next
      case 2
      with assms(2) others have "map_of (h ! df) CO2_Concentration_ppm \<noteq> None"
        "map_of (h ! df) CH4_Concentration_ppb = None"
        by (simp_all add: column_labels_distinct)
      with 2 show ?thesis
        by (subst first_missing_column) auto
    next
      case 3
      with assms(2) others have "map_of (h ! df) CO2_Concentration_ppm \<noteq> None"
        "map_of (h ! df) CH4_Concentration_ppb \<noteq> None"
        "map_of (h ! df) N2O_Concentration_ppb = None"
        by (simp_all add: column_labels_distinct)
      with 3 show ?thesis
        by (subst first_missing_column) auto
    next
      case 4
      with assms(2) others have "map_of (h ! df) CO2_Concentration_ppm \<noteq> None"
        "map_of (h ! df) CH4_Concentration_ppb \<noteq> None"
        "map_of (h ! df) N2O_Concentration_ppb \<noteq> None"
        "map_of (h ! df) Temperature_Anomaly_C = None"
        by (simp_all add: column_labels_distinct)
      with 4 show ?thesis
        by (subst first_missing_column) auto
    qed
  qed
qed

theorem missing_column_is_key_error_witness:
  "CH4_Concentration_ppb \<in> {CO2_Concentration_ppm, CH4_Concentration_ppb,
      N2O_Concentration_ppb, Temperature_Anomaly_C} \<and>
   map_of ([no_ch4] ! 0) CH4_Concentration_ppb = None \<and>
   snd (generate_scenario LinearRegression 0 1 2 3 [no_ch4]) =
     Inl (KeyError CH4_Concentration_ppb)"
proof -
  have k: "CH4_Concentration_ppb \<in> {CO2_Concentration_ppm, CH4_Concentration_ppb,
      N2O_Concentration_ppb, Temperature_Anomaly_C}"
    by simp
  have none: "map_of ([no_ch4] ! 0) CH4_Concentration_ppb = None"
    by (simp add: no_ch4_def column_labels_distinct)
  have others: "\<forall>j \<in> {CO2_Concentration_ppm, CH4_Concentration_ppb, N2O_Concentration_ppb,
      Temperature_Anomaly_C} - {CH4_Concentration_ppb}. map_of ([no_ch4] ! 0) j \<noteq> None"
    by (auto simp: no_ch4_def column_labels_distinct)
  from missing_column_is_key_error [OF k none, of LinearRegression 1 2 3] others
  have "snd (generate_scenario LinearRegression 0 1 2 3 [no_ch4]) =
     Inl (KeyError CH4_Concentration_ppb)"
    by blast
  with k none show ?thesis
    by blast
qed

text \<open>
  C10. When the baseline already has a column \<^verbatim>\<open>Predicted_Temperature_Anomaly_C\<close>, the
  returned table has the baseline's columns, in the same number and order, and that
  column now holds the values predicted by the model fitted in this call.
\<close>

theorem existing_prediction_overwritten:
  assumes "map_of (h ! df) Predicted_Temperature_Anomaly_C = Some old"
    and "generate_scenario lr df a b c h = (h', Inr s)"
  shows "ncols (h' ! s) = ncols (h ! df) \<and>
         map fst (h' ! s) = map fst (h ! df) \<and>
         (\<exists>X y m p.
            getitems_frame (h' ! s)
              [CO2_Concentration_ppm, CH4_Concentration_ppb, N2O_Concentration_ppb] = Inr X \<and>
            getitem_frame (h' ! s) Temperature_Anomaly_C = Inr y \<and>
            fit lr X y = Inr m \<and> predict lr m X = Inr p \<and>
            getitem_frame (h' ! s) Predicted_Temperature_Anomaly_C = Inr p)"
proof -
  from generate_scenario_returns [OF assms(2)] obtain xc xm xn y m p where
    cols: "map_of (h ! df) CO2_Concentration_ppm = Some xc"
      "map_of (h ! df) CH4_Concentration_ppb = Some xm"
      "map_of (h ! df) N2O_Concentration_ppb = Some xn"
      "map_of (h ! df) Temperature_Anomaly_C = Some y"
    and fit: "fit lr [(CO2_Concentration_ppm, map (\<lambda>v. v + a) xc),
              (CH4_Concentration_ppb, map (\<lambda>v. v + b) xm),
              (N2O_Concentration_ppb, map (\<lambda>v. v + c) xn)] y = Inr m"
    and predict: "predict lr m [(CO2_Concentration_ppm, map (\<lambda>v. v + a) xc),
              (CH4_Concentration_ppb, map (\<lambda>v. v + b) xm),
              (N2O_Concentration_ppb, map (\<lambda>v. v + c) xn)] = Inr p"
    and s: "s = length h"
    and h': "h' = h @ [AList.update Predicted_Temperature_Anomaly_C p
                 (AList.update N2O_Concentration_ppb (map (\<lambda>v. v + c) xn)
                   (AList.update CH4_Concentration_ppb (map (\<lambda>v. v + b) xm)
                     (AList.update CO2_Concentration_ppm (map (\<lambda>v. v + a) xc) (h ! df))))]"
    by blast
  define f1 where "f1 = AList.update CO2_Concentration_ppm (map (\<lambda>v. v + a) xc) (h ! df)"
  define f2 where "f2 = AList.update CH4_Concentration_ppb (map (\<lambda>v. v + b) xm) f1"
  define f3 where "f3 = AList.update N2O_Concentration_ppb (map (\<lambda>v. v + c) xn) f2"
  have out: "h' ! s = AList.update Predicted_Temperature_Anomaly_C p f3"
    by (simp add: s h' f1_def f2_def f3_def)
  have m1: "map_of f1 CH4_Concentration_ppb = Some xm"
    by (simp add: f1_def update_conv' cols column_labels_distinct)
  have m2: "map_of f2 N2O_Concentration_ppb = Some xn"
    by (simp add: f2_def f1_def update_conv' cols column_labels_distinct)
  have m3: "map_of f3 Predicted_Temperature_Anomaly_C = Some old"
    by (simp add: f3_def f2_def f1_def update_conv' assms(1) column_labels_distinct)
  have k1: "map fst f1 = map fst (h ! df)"
    unfolding f1_def by (rule update_present_keys [OF cols(1)])
  have k2: "map fst f2 = map fst f1"
    unfolding f2_def by (rule update_present_keys [OF m1])
  have k3: "map fst f3 = map fst f2"
    unfolding f3_def by (rule update_present_keys [OF m2])
  have keys: "map fst (h' ! s) = map fst (h ! df)"
    by (simp add: out update_present_keys [OF m3] k1 k2 k3)
  have "length (h' ! s) = length (map fst (h' ! s))"
    by simp
  also have "\<dots> = length (h ! df)"
    by (simp only: keys) simp
  finally have count: "ncols (h' ! s) = ncols (h ! df)"
    by (simp add: ncols_def)
  have X: "getitems_frame (h' ! s)
      [CO2_Concentration_ppm, CH4_Concentration_ppb, N2O_Concentration_ppb] =
      Inr [(CO2_Concentration_ppm, map (\<lambda>v. v + a) xc),
           (CH4_Concentration_ppb, map (\<lambda>v. v + b) xm),
           (N2O_Concentration_ppb, map (\<lambda>v. v + c) xn)]"
    by (simp add: out f3_def f2_def f1_def getitem_frame_def update_conv' cols
        column_labels_distinct)
  have y: "getitem_frame (h' ! s) Temperature_Anomaly_C = Inr y"
    by (simp add: out f3_def f2_def f1_def getitem_frame_def update_conv' cols
        column_labels_distinct)
  have p: "getitem_frame (h' ! s) Predicted_Temperature_Anomaly_C = Inr p"
    by (simp add: out getitem_frame_def update_conv')
  from count keys X y fit predict p show ?thesis
    by blast
qed

theorem existing_prediction_overwritten_witness:
  "map_of ([predicted_rows] ! 0) Predicted_Temperature_Anomaly_C = Some [0, 0, 0] \<and>
   ncols (fst (generate_scenario LinearRegression 0 1 0 0 [predicted_rows]) ! 1) =
     ncols ([predicted_rows] ! 0) \<and>
   map fst (fst (generate_scenario LinearRegression 0 1 0 0 [predicted_rows]) ! 1) =
     map fst ([predicted_rows] ! 0) \<and>
   getitem_frame (fst (generate_scenario LinearRegression 0 1 0 0 [predicted_rows]) ! 1)
     Predicted_Temperature_Anomaly_C = Inr [3 / 2, 2, 5 / 2]"
proof -
  have old: "map_of ([predicted_rows] ! 0) Predicted_Temperature_Anomaly_C = Some [0, 0, 0]"
    by (simp add: predicted_rows_def column_labels_distinct)
  have "getitem_frame (fst (generate_scenario LinearRegression 0 1 0 0 [predicted_rows]) ! 1)
     Predicted_Temperature_Anomaly_C = Inr [3 / 2, 2, 5 / 2]"
    unfolding predicted_rows_scenario
    by (simp add: getitem_frame_def column_labels_distinct)
  with old existing_prediction_overwritten [OF old predicted_rows_scenario] show ?thesis
    unfolding predicted_rows_scenario by simp
qed

end
